theory Spec2Isabelle
  imports Complex_Main "HOL-Library.Multiset"
begin

section \<open>Priority scoring (src/orchestrator/priority.py)\<close>

text \<open>
  The module scores task descriptors and ranks them. The embedding follows the Python
  text line by line:
  \<^item> Python's unbounded integers are \<open>int\<close>;
  \<^item> a raised exception is the \<open>Inl\<close> branch of \<open>error + 'a\<close>;
  \<^item> the \<open>factors\<close> dictionary is an association list in insertion order, read with
    \<open>map_of\<close>;
  \<^item> a Python \<open>str\<close> is modelled by its UTF-8 encoding, a \<open>string\<close> of bytes: two
    strs are equal exactly when their encodings are;
  \<^item> the score is a Python \<open>float\<close>. Converting an integer factor to a float raises
    OverflowError outside the range of a double, and the model raises it there. The
    value of the score is the exact rational value of the expression (weights
    \<open>0.4, 0.2, 0.15, 0.15, 0.1\<close> as the decimal fractions they denote, \<open>round(x, 2)\<close>
    as rounding half to even at the second decimal): the binary rounding of the
    products and sums is not modelled.
\<close>

subsection \<open>Exceptions\<close>

datatype error = TypeError | ValueError | KeyError | OverflowError

subsection \<open>datetime and timedelta\<close>

text \<open>
  A \<open>datetime\<close> object: the reading of its wall clock in microseconds since
  0001-01-01T00:00:00, and its \<open>tzinfo\<close> attribute (\<open>None\<close> for a naive object, the UTC
  offset in microseconds for an aware one). \<open>datetime.now()\<close> has no time zone argument
  in the source, so it returns a naive object; its reading is the parameter \<open>now\<close> of
  the functions below.
\<close>

record datetime =
  micros :: int
  tzinfo :: "int option"

text \<open>
  \<open>datetime.now() - created_at\<close>: a naive object minus an aware one raises TypeError;
  otherwise the difference is a timedelta, here its length in microseconds.
\<close>

definition now_minus :: "int \<Rightarrow> datetime \<Rightarrow> error + int" where
  "now_minus now created_at =
     (case tzinfo created_at of
        None \<Rightarrow> Inr (now - micros created_at)
      | Some off \<Rightarrow> Inl TypeError)"

text \<open>
  \<open>timedelta.days\<close>: a timedelta is normalised with \<open>0 \<le> seconds < 86400\<close> and
  \<open>0 \<le> microseconds < 1000000\<close>, so \<open>days\<close> is the floor of the length over one day.
\<close>

definition days :: "int \<Rightarrow> int" where
  "days td = td div 86400000000"

subsection \<open>ScoredTask and the class constants\<close>

record ScoredTask =
  task_id :: string
  title :: string
  raw_priority :: int
  score :: rat
  factors :: "(string \<times> int) list"

definition WEIGHTS :: "(string \<times> rat) list" where
  "WEIGHTS =
     [(''base_priority'', 4 / 10),
      (''age'', 2 / 10),
      (''complexity'', 15 / 100),
      (''dependencies'', 15 / 100),
      (''labels'', 1 / 10)]"

definition URGENT_LABELS :: "string set" where
  "URGENT_LABELS = {''urgent'', ''critical'', ''blocker'', ''hotfix''}"

subsection \<open>Built-ins used by score_task\<close>

text \<open>
  \<open>str.lower\<close>. On a str of ASCII characters (no byte of the encoding has its high bit
  set) each of \<open>A\<close>..\<open>Z\<close> becomes the letter of \<open>a\<close>..\<open>z\<close> at its place and nothing else
  changes. On any other str the result is what the Unicode tables of the library say
  (KELVIN SIGN becomes \<open>k\<close>, for one): that part of the library is the parameter
  \<open>unicode_lower\<close>, any function on encoded strs.
\<close>

definition ascii_uppercase :: string where
  "ascii_uppercase = ''ABCDEFGHIJKLMNOPQRSTUVWXYZ''"

definition ascii_lowercase :: string where
  "ascii_lowercase = ''abcdefghijklmnopqrstuvwxyz''"

definition lower_char :: "char \<Rightarrow> char" where
  "lower_char c =
     (case map_of (zip ascii_uppercase ascii_lowercase) c of None \<Rightarrow> c | Some l \<Rightarrow> l)"

definition isascii :: "string \<Rightarrow> bool" where
  "isascii l = list_all (\<lambda>c. \<not> digit7 c) l"

definition lower :: "(string \<Rightarrow> string) \<Rightarrow> string \<Rightarrow> string" where
  "lower unicode_lower l = (if isascii l then map lower_char l else unicode_lower l)"

text \<open>\<open>d[k]\<close> on a dictionary: KeyError when the key is missing.\<close>

definition getitem :: "(string \<times> 'v) list \<Rightarrow> string \<Rightarrow> error + 'v" where
  "getitem d k = (case map_of d k of None \<Rightarrow> Inl KeyError | Some v \<Rightarrow> Inr v)"

text \<open>\<open>d.get(k, default)\<close>.\<close>

definition get_default :: "(string \<times> 'v) list \<Rightarrow> string \<Rightarrow> 'v \<Rightarrow> 'v" where
  "get_default d k dflt = (case map_of d k of None \<Rightarrow> dflt | Some v \<Rightarrow> v)"

text \<open>
  \<open>int * float\<close> converts the integer to a float first. The conversion rounds to the
  nearest double, ties to even, and raises OverflowError when the result would be
  \<open>2 ^ 1024\<close> or more in magnitude: the largest double is \<open>2 ^ 1024 - 2 ^ 971\<close>, so the
  integers that convert are those of magnitude below \<open>2 ^ 1024 - 2 ^ 970\<close>.
\<close>

definition float_range :: "int \<Rightarrow> bool" where
  "float_range v \<longleftrightarrow> \<bar>v\<bar> < 2 ^ 1024 - 2 ^ 970"

definition int_to_float :: "int \<Rightarrow> error + rat" where
  "int_to_float v = (if float_range v then Inr (of_int v) else Inl OverflowError)"

text \<open>
  \<open>sum(factors[k] * self.WEIGHTS[k] for k in self.WEIGHTS)\<close>: the keys of \<open>WEIGHTS\<close> in
  insertion order, the running total starting at 0. Each product is an integer factor
  times a float weight.
\<close>

fun weighted_sum :: "(string \<times> int) list \<Rightarrow> (string \<times> rat) list \<Rightarrow> rat \<Rightarrow> error + rat" where
  "weighted_sum fs [] acc = Inr acc"
| "weighted_sum fs ((k, w) # ws) acc =
     (case getitem fs k of
        Inl e \<Rightarrow> Inl e
      | Inr v \<Rightarrow>
          (case int_to_float v of
             Inl e \<Rightarrow> Inl e
           | Inr x \<Rightarrow> weighted_sum fs ws (acc + x * w)))"

text \<open>\<open>round(x, ndigits)\<close>: to the nearest multiple of \<open>10 ^ -ndigits\<close>, ties to even.\<close>

definition round_half_even :: "rat \<Rightarrow> int" where
  "round_half_even x =
     (let f = \<lfloor>x\<rfloor>; d = x - of_int f
      in if d < 1 / 2 then f else if 1 / 2 < d then f + 1 else if even f then f else f + 1)"

definition py_round :: "rat \<Rightarrow> nat \<Rightarrow> rat" where
  "py_round x ndigits = of_int (round_half_even (x * 10 ^ ndigits)) / 10 ^ ndigits"

subsection \<open>PriorityScorer.score_task\<close>

text \<open>
  Lines 58-64. A datetime object is always true in a condition, so \<open>if created_at:\<close>
  tests for \<open>None\<close>.
\<close>

definition age_score :: "int \<Rightarrow> datetime option \<Rightarrow> error + int" where
  "age_score now created_at =
     (case created_at of
        Some c \<Rightarrow>
          (case now_minus now c of
             Inl e \<Rightarrow> Inl e
           | Inr td \<Rightarrow> Inr (min 100 (days td * 5)))
      | None \<Rightarrow> Inr 0)"

text \<open>Lines 75-81. \<open>if labels:\<close> is false for \<open>None\<close> and for the empty list.\<close>

definition label_score :: "(string \<Rightarrow> string) \<Rightarrow> string list option \<Rightarrow> int" where
  "label_score unicode_lower labels =
     (case labels of
        None \<Rightarrow> 0
      | Some ls \<Rightarrow>
          if ls = [] then 0
          else if set (map (lower unicode_lower) ls) \<inter> URGENT_LABELS \<noteq> {} then 100 else 0)"

definition complexity_scores :: "(string \<times> int) list" where
  "complexity_scores = [(''low'', 80), (''medium'', 50), (''high'', 30)]"

text \<open>
  The arguments are those of the method, after the library's \<open>unicode_lower\<close> and
  \<open>now\<close>, the reading of \<open>datetime.now()\<close>. The statements run in the source's order:
  the TypeError of the subtraction leaves the method at line 60, the OverflowError of a
  product at line 85, before anything is returned.
\<close>

definition score_task ::
  "(string \<Rightarrow> string) \<Rightarrow> int \<Rightarrow> string \<Rightarrow> string \<Rightarrow> int \<Rightarrow> datetime option \<Rightarrow> string
   \<Rightarrow> string list option \<Rightarrow> int \<Rightarrow> error + ScoredTask" where
  "score_task unicode_lower now tid ttl priority created_at complexity labels blocking_count =
     (let base_score = max 0 ((5 - priority) * 25);
          factors0 = [(''base_priority'', base_score)]
      in case age_score now created_at of
           Inl e \<Rightarrow> Inl e
         | Inr age \<Rightarrow>
             (let factors1 = factors0 @ [(''age'', age)];
                  complexity_score = get_default complexity_scores complexity 50;
                  factors2 = factors1 @ [(''complexity'', complexity_score)];
                  dependency_score = min 100 (blocking_count * 20);
                  factors3 = factors2 @ [(''dependencies'', dependency_score)];
                  factors4 = factors3 @ [(''labels'', label_score unicode_lower labels)]
              in case weighted_sum factors4 WEIGHTS 0 of
                   Inl e \<Rightarrow> Inl e
                 | Inr total_score \<Rightarrow>
                     Inr \<lparr>task_id = tid, title = ttl, raw_priority = priority,
                          score = py_round total_score 2, factors = factors4\<rparr>))"

subsection \<open>PriorityScorer.rank_tasks\<close>

text \<open>
  \<open>sorted(xs, key=f, reverse=True)\<close>. CPython keeps the sort stable under \<open>reverse\<close>
  by reversing the list, sorting it ascending with its stable sort, and reversing the
  result. A stable sort by a key is determined by its input, so the insertion sort
  \<open>sort_key\<close> stands for it.
\<close>

definition sorted_reverse :: "('a \<Rightarrow> 'k::linorder) \<Rightarrow> 'a list \<Rightarrow> 'a list" where
  "sorted_reverse f xs = rev (sort_key f (rev xs))"

definition rank_tasks :: "ScoredTask list \<Rightarrow> ScoredTask list" where
  "rank_tasks tasks = sorted_reverse score tasks"

subsection \<open>score_tasks, the batch entry point\<close>

text \<open>
  One input dictionary. Each field is the value under the key of that name, \<open>None\<close> when
  the key is missing; the values have the types of the input contract.
\<close>

record task =
  id_key :: "string option"
  title_key :: "string option"
  priority_key :: "int option"
  created_at_key :: "string option"
  complexity_key :: "string option"
  labels_key :: "string list option"
  blocking_count_key :: "int option"

definition or_default :: "'a option \<Rightarrow> 'a \<Rightarrow> 'a" where
  "or_default v dflt = (case v of None \<Rightarrow> dflt | Some x \<Rightarrow> x)"

text \<open>
  Lines 116-118. \<open>datetime.fromisoformat\<close> belongs to the standard library; it is the
  parameter \<open>fromisoformat\<close>, \<open>None\<close> standing for its ValueError. The guard
  \<open>if task.get('created_at'):\<close> is false for a missing key and for the empty string.
\<close>

definition parse_created_at :: "(string \<Rightarrow> datetime option) \<Rightarrow> task \<Rightarrow> error + datetime option" where
  "parse_created_at fromisoformat t =
     (case created_at_key t of
        None \<Rightarrow> Inr None
      | Some s \<Rightarrow>
          if s = [] then Inr None
          else (case fromisoformat s of
                  None \<Rightarrow> Inl ValueError
                | Some d \<Rightarrow> Inr (Some d)))"

text \<open>
  The body of the loop, lines 116-136: one descriptor to one output dictionary. The
  output dictionary has the five keys of \<open>ScoredTask\<close>, copied one by one, and is
  modelled by the same record.
\<close>

definition score_entry ::
  "(string \<Rightarrow> datetime option) \<Rightarrow> (string \<Rightarrow> string) \<Rightarrow> int \<Rightarrow> task \<Rightarrow> error + ScoredTask" where
  "score_entry fromisoformat unicode_lower now t =
     (case parse_created_at fromisoformat t of
        Inl e \<Rightarrow> Inl e
      | Inr created_at \<Rightarrow>
          (case score_task unicode_lower now
                  (or_default (id_key t) '''')
                  (or_default (title_key t) '''')
                  (or_default (priority_key t) 4)
                  created_at
                  (or_default (complexity_key t) ''medium'')
                  (Some (or_default (labels_key t) []))
                  (or_default (blocking_count_key t) 0) of
             Inl e \<Rightarrow> Inl e
           | Inr scored_task \<Rightarrow>
               Inr \<lparr>task_id = task_id scored_task, title = title scored_task,
                    raw_priority = raw_priority scored_task, score = score scored_task,
                    factors = factors scored_task\<rparr>))"

text \<open>
  The loop: \<open>scored\<close> grows by one dictionary per descriptor; an exception ends it.
  Every call of \<open>score_task\<close> reads \<open>datetime.now()\<close> anew: \<open>clock k\<close> is the reading
  while descriptor number \<open>k\<close> of the batch, counted from 0, is scored.
\<close>

fun score_loop ::
  "(string \<Rightarrow> datetime option) \<Rightarrow> (string \<Rightarrow> string) \<Rightarrow> (nat \<Rightarrow> int) \<Rightarrow> nat \<Rightarrow> task list
   \<Rightarrow> ScoredTask list \<Rightarrow> error + ScoredTask list" where
  "score_loop fromisoformat unicode_lower clock k [] scored = Inr scored"
| "score_loop fromisoformat unicode_lower clock k (t # ts) scored =
     (case score_entry fromisoformat unicode_lower (clock k) t of
        Inl e \<Rightarrow> Inl e
      | Inr d \<Rightarrow> score_loop fromisoformat unicode_lower clock (Suc k) ts (scored @ [d]))"

definition score_tasks ::
  "(string \<Rightarrow> datetime option) \<Rightarrow> (string \<Rightarrow> string) \<Rightarrow> (nat \<Rightarrow> int) \<Rightarrow> task list
   \<Rightarrow> error + ScoredTask list" where
  "score_tasks fromisoformat unicode_lower clock tasks_data =
     (case score_loop fromisoformat unicode_lower clock 0 tasks_data [] of
        Inl e \<Rightarrow> Inl e
      | Inr scored \<Rightarrow> Inr (sorted_reverse score scored))"

subsection \<open>Vocabulary of the specification\<close>

text \<open>The specification's \<open>clamp(lo, hi, x)\<close>.\<close>

definition clamp :: "int \<Rightarrow> int \<Rightarrow> int \<Rightarrow> int" where
  "clamp lo hi x = max lo (min hi x)"

text \<open>
  A creation time that \<open>datetime.now()\<close> can be compared with: absent, or a naive
  object.
\<close>

definition tz_naive :: "datetime option \<Rightarrow> bool" where
  "tz_naive created_at = (case created_at of None \<Rightarrow> True | Some d \<Rightarrow> tzinfo d = None)"

text \<open>
  The inputs on which \<open>score_task\<close> returns: the creation time is absent or naive, and
  the three factors without a bound on one side, base_priority, age and dependencies,
  convert to float. Lemma \<open>score_task_returns_iff\<close> below shows that these are exactly
  the inputs on which the method returns; on the others it raises TypeError or
  OverflowError.
\<close>

definition scorable :: "int \<Rightarrow> int \<Rightarrow> datetime option \<Rightarrow> int \<Rightarrow> bool" where
  "scorable now priority created_at blocking_count \<longleftrightarrow>
     tz_naive created_at
     \<and> float_range (max 0 ((5 - priority) * 25))
     \<and> float_range (case created_at of None \<Rightarrow> 0 | Some d \<Rightarrow> min 100 (days (now - micros d) * 5))
     \<and> float_range (min 100 (blocking_count * 20))"

text \<open>
  The outcomes of the loop body on the descriptors of a batch, in the order of the batch,
  each at its own reading of the clock.
\<close>

definition outcomes ::
  "(string \<Rightarrow> datetime option) \<Rightarrow> (string \<Rightarrow> string) \<Rightarrow> (nat \<Rightarrow> int) \<Rightarrow> task list
   \<Rightarrow> (error + ScoredTask) list" where
  "outcomes fromisoformat unicode_lower clock tasks_data =
     map (\<lambda>(k, t). score_entry fromisoformat unicode_lower (clock k) t) (enumerate 0 tasks_data)"

subsection \<open>Concrete inputs\<close>

text \<open>
  Two points of the graph of \<open>datetime.fromisoformat\<close>, for running \<open>score_tasks\<close> on
  concrete batches: midnight of 2024-01-01 (day 738885 after 0001-01-01) without and with
  a UTC offset. The excerpt is only ever applied to these two strings and to two strings
  that the library rejects as well, the empty string and \<open>not-a-date\<close>. The theorems
  about \<open>score_tasks\<close> hold for every parser.
\<close>

definition fromisoformat_excerpt :: "string \<Rightarrow> datetime option" where
  "fromisoformat_excerpt s =
     (if s = ''2024-01-01T00:00:00''
        then Some \<lparr>micros = 63839664000000000, tzinfo = None\<rparr>
      else if s = ''2024-01-01T00:00:00+00:00''
        then Some \<lparr>micros = 63839664000000000, tzinfo = Some 0\<rparr>
      else None)"

text \<open>
  The labels of the concrete inputs below are ASCII, so \<open>lower\<close> never consults its
  parameter on them. This function takes the parameter's place there.
\<close>

definition unicode_lower_unused :: "string \<Rightarrow> string" where
  "unicode_lower_unused l = l"

text \<open>A reading of the clock ten days later, 2024-01-11T00:00:00.\<close>

definition now_excerpt :: int where
  "now_excerpt = 63840528000000000"

text \<open>A clock that starts there and is one microsecond later at each descriptor.\<close>

definition clock_excerpt :: "nat \<Rightarrow> int" where
  "clock_excerpt k = now_excerpt + int k"

text \<open>The first sample task of the module's self-test, with a creation time.\<close>

definition sample_task :: task where
  "sample_task =
     \<lparr>id_key = Some ''TASK-1'', title_key = Some ''Fix login bug'', priority_key = Some 1,
      created_at_key = Some ''2024-01-01T00:00:00'', complexity_key = Some ''low'',
      labels_key = Some [''critical'', ''bug''], blocking_count_key = None\<rparr>"

text \<open>Three scored tasks A, B, C with the scores 50, 50 and 70.\<close>

definition ranked_A :: ScoredTask where
  "ranked_A = \<lparr>task_id = ''A'', title = '''', raw_priority = 3, score = 50, factors = []\<rparr>"

definition ranked_B :: ScoredTask where
  "ranked_B = \<lparr>task_id = ''B'', title = '''', raw_priority = 3, score = 50, factors = []\<rparr>"

definition ranked_C :: ScoredTask where
  "ranked_C = \<lparr>task_id = ''C'', title = '''', raw_priority = 3, score = 70, factors = []\<rparr>"

section \<open>Properties\<close>

subsection \<open>Conversion to float\<close>

lemma float_range_small: "\<bar>v\<bar> \<le> 1000000 \<Longrightarrow> float_range v"
proof -
  have "(1000000 :: int) < 2 ^ 1024 - 2 ^ 970" by simp
  then show "\<bar>v\<bar> \<le> 1000000 \<Longrightarrow> float_range v" by (simp add: float_range_def)
qed

subsection \<open>The weighted sum and the closed form of score_task\<close>

lemma weighted_sum_five:
  assumes "float_range b" "float_range a" "float_range c" "float_range d" "float_range l"
  shows "weighted_sum [(''base_priority'', b), (''age'', a), (''complexity'', c),
                       (''dependencies'', d), (''labels'', l)] WEIGHTS 0
           = Inr (of_int (8 * b + 4 * a + 3 * c + 3 * d + 2 * l) / 20)"
  using assms by (simp add: WEIGHTS_def getitem_def int_to_float_def field_simps)

lemma weighted_sum_overflow:
  assumes "\<not> (float_range b \<and> float_range a \<and> float_range c \<and> float_range d \<and> float_range l)"
  shows "weighted_sum [(''base_priority'', b), (''age'', a), (''complexity'', c),
                       (''dependencies'', d), (''labels'', l)] WEIGHTS 0
           = Inl OverflowError"
  using assms by (auto simp: WEIGHTS_def getitem_def int_to_float_def)

lemma round_half_even_of_int: "round_half_even (of_int n) = n"
  by (simp add: round_half_even_def)

lemma py_round_twentieths: "py_round (of_int n / 20) 2 = of_int n / 20"
proof -
  have "(of_int n / 20 :: rat) * 10 ^ 2 = of_int (5 * n)" by simp
  then have "round_half_even ((of_int n / 20 :: rat) * 10 ^ 2) = 5 * n"
    by (simp only: round_half_even_of_int)
  then show ?thesis by (simp add: py_round_def)
qed

lemma label_score_cases:
  "label_score ul L =
     (if \<exists>l \<in> set (or_default L []). lower ul l \<in> URGENT_LABELS then 100 else 0)"
  by (auto simp: label_score_def or_default_def split: option.splits)

lemma label_score_range: "float_range (label_score ul L)"
  by (rule float_range_small) (simp add: label_score_cases)

lemma complexity_range:
  "0 \<le> get_default complexity_scores cx 50 \<and> get_default complexity_scores cx 50 \<le> 100"
  by (simp add: get_default_def complexity_scores_def)

lemma complexity_float_range: "float_range (get_default complexity_scores cx 50)"
  by (rule float_range_small) (use complexity_range [of cx] in simp)

lemma score_task_closed_form:
  "score_task ul now i ti p created_at cx ls b =
    (case age_score now created_at of
       Inl e \<Rightarrow> Inl e
     | Inr a \<Rightarrow>
        if float_range (max 0 ((5 - p) * 25)) \<and> float_range a \<and> float_range (min 100 (b * 20))
        then Inr \<lparr>task_id = i, title = ti, raw_priority = p,
               score = of_int (8 * max 0 ((5 - p) * 25) + 4 * a
                         + 3 * get_default complexity_scores cx 50
                         + 3 * min 100 (b * 20) + 2 * label_score ul ls) / 20,
               factors = [(''base_priority'', max 0 ((5 - p) * 25)), (''age'', a),
                          (''complexity'', get_default complexity_scores cx 50),
                          (''dependencies'', min 100 (b * 20)),
                          (''labels'', label_score ul ls)]\<rparr>
        else Inl OverflowError)"
proof (cases "age_score now created_at")
  case (Inl e)
  then show ?thesis by (simp add: score_task_def Let_def)
next
  case (Inr a)
  show ?thesis
  proof (cases "float_range (max 0 ((5 - p) * 25)) \<and> float_range a \<and> float_range (min 100 (b * 20))")
    case True
    then have "weighted_sum [(''base_priority'', max 0 ((5 - p) * 25)), (''age'', a),
                          (''complexity'', get_default complexity_scores cx 50),
                          (''dependencies'', min 100 (b * 20)),
                          (''labels'', label_score ul ls)] WEIGHTS 0
        = Inr (of_int (8 * max 0 ((5 - p) * 25) + 4 * a
                         + 3 * get_default complexity_scores cx 50
                         + 3 * min 100 (b * 20) + 2 * label_score ul ls) / 20)"
      by (intro weighted_sum_five) (simp_all add: complexity_float_range label_score_range)
    with Inr True show ?thesis
      unfolding score_task_def Let_def
      by (simp only: append.simps py_round_twentieths sum.case if_True simp_thms)
  next
    case False
    then have "weighted_sum [(''base_priority'', max 0 ((5 - p) * 25)), (''age'', a),
                          (''complexity'', get_default complexity_scores cx 50),
                          (''dependencies'', min 100 (b * 20)),
                          (''labels'', label_score ul ls)] WEIGHTS 0
        = Inl OverflowError"
      by (intro weighted_sum_overflow) blast
    with Inr False show ?thesis
      unfolding score_task_def Let_def
      by (simp only: append.simps sum.case if_False simp_thms)
  qed
qed

lemma age_score_naive:
  "tz_naive c \<Longrightarrow>
     age_score now c =
       Inr (case c of None \<Rightarrow> 0 | Some d \<Rightarrow> min 100 (days (now - micros d) * 5))"
  by (auto simp: tz_naive_def age_score_def now_minus_def split: option.splits)

lemma age_score_aware: "\<not> tz_naive c \<Longrightarrow> age_score now c = Inl TypeError"
  by (auto simp: tz_naive_def age_score_def now_minus_def split: option.splits)

lemma score_task_returns:
  assumes "scorable now p created_at b"
  shows "score_task ul now i ti p created_at cx ls b =
    Inr \<lparr>task_id = i, title = ti, raw_priority = p,
         score = of_int (8 * max 0 ((5 - p) * 25)
                   + 4 * (case created_at of None \<Rightarrow> 0
                          | Some d \<Rightarrow> min 100 (days (now - micros d) * 5))
                   + 3 * get_default complexity_scores cx 50
                   + 3 * min 100 (b * 20) + 2 * label_score ul ls) / 20,
         factors = [(''base_priority'', max 0 ((5 - p) * 25)),
                    (''age'', case created_at of None \<Rightarrow> 0
                              | Some d \<Rightarrow> min 100 (days (now - micros d) * 5)),
                    (''complexity'', get_default complexity_scores cx 50),
                    (''dependencies'', min 100 (b * 20)), (''labels'', label_score ul ls)]\<rparr>"
  using assms by (simp add: scorable_def score_task_closed_form age_score_naive)

lemma score_task_aware:
  "\<not> tz_naive c \<Longrightarrow> score_task ul now i ti p c cx ls b = Inl TypeError"
  by (simp add: score_task_closed_form age_score_aware)

lemma score_task_overflow:
  "tz_naive c \<Longrightarrow> \<not> scorable now p c b \<Longrightarrow> score_task ul now i ti p c cx ls b = Inl OverflowError"
  by (auto simp: scorable_def score_task_closed_form age_score_naive)

lemma score_task_returns_iff:
  "(\<exists>t. score_task ul now i ti p c cx ls b = Inr t) \<longleftrightarrow> scorable now p c b"
proof
  assume "scorable now p c b"
  then show "\<exists>t. score_task ul now i ti p c cx ls b = Inr t"
    by (simp add: score_task_returns)
next
  assume r: "\<exists>t. score_task ul now i ti p c cx ls b = Inr t"
  show "scorable now p c b"
  proof (rule ccontr)
    assume n: "\<not> scorable now p c b"
    show False
    proof (cases "tz_naive c")
      case True
      with n r show False by (simp add: score_task_overflow)
    next
      case False
      with r show False by (simp add: score_task_aware)
    qed
  qed
qed


subsection \<open>The descending stable sort\<close>

lemma mset_sorted_reverse: "mset (sorted_reverse f xs) = mset xs"
  by (simp add: sorted_reverse_def)

lemma sorted_reverse_descending: "sorted_wrt (\<lambda>a b. f b \<le> f a) (sorted_reverse f xs)"
proof -
  have "sorted (map f (sort_key f (rev xs)))" by (rule sorted_sort_key)
  then have "sorted_wrt (\<lambda>a b. f a \<le> f b) (sort_key f (rev xs))"
    by (simp add: sorted_map)
  then show ?thesis
    by (simp add: sorted_reverse_def sorted_wrt_rev)
qed

lemma sorted_reverse_stable:
  "filter (\<lambda>x. f x = k) (sorted_reverse f xs) = filter (\<lambda>x. f x = k) xs"
proof -
  have "filter (\<lambda>x. f x = k) (sort_key f (rev xs)) = filter (\<lambda>x. f x = k) (rev xs)"
    by (rule sort_key_stable)
  then have "rev (filter (\<lambda>x. f x = k) (sort_key f (rev xs))) = filter (\<lambda>x. f x = k) xs"
    by (simp add: rev_filter)
  then show ?thesis by (simp add: sorted_reverse_def rev_filter)
qed

subsection \<open>The loop of score_tasks\<close>

lemma score_loop_Inr:
  "score_loop f ul clock k ts acc = Inr out \<longleftrightarrow>
     (\<exists>ds. map (\<lambda>(j, t). score_entry f ul (clock j) t) (enumerate k ts) = map Inr ds
        \<and> out = acc @ ds)"
proof (induction ts arbitrary: k acc)
  case Nil
  then show ?case by auto
next
  case (Cons t ts)
  show ?case
  proof (cases "score_entry f ul (clock k) t")
    case (Inl e)
    then show ?thesis by (auto simp: map_eq_Cons_conv)
  next
    case (Inr d)
    then show ?thesis by (auto simp: Cons.IH map_eq_Cons_conv)
  qed
qed




lemma score_entry_returns:
  assumes "parse_created_at f t = Inr c"
    and "scorable now (or_default (priority_key t) 4) c (or_default (blocking_count_key t) 0)"
  shows "\<exists>r. score_entry f ul now t = Inr r"
  by (simp add: score_entry_def assms(1) score_task_returns [OF assms(2)])

lemma score_tasks_Inr:
  "score_tasks f ul clock ts = Inr out \<longleftrightarrow>
     (\<exists>scored. outcomes f ul clock ts = map Inr scored \<and> out = sorted_reverse score scored)"
proof
  assume "score_tasks f ul clock ts = Inr out"
  then obtain scored where
    "score_loop f ul clock 0 ts [] = Inr scored" "out = sorted_reverse score scored"
    by (auto simp: score_tasks_def split: sum.splits)
  then show "\<exists>scored. outcomes f ul clock ts = map Inr scored \<and> out = sorted_reverse score scored"
    by (auto simp: score_loop_Inr outcomes_def)
next
  assume "\<exists>scored. outcomes f ul clock ts = map Inr scored \<and> out = sorted_reverse score scored"
  then obtain scored where
    s: "outcomes f ul clock ts = map Inr scored" "out = sorted_reverse score scored" by blast
  from s(1) have "score_loop f ul clock 0 ts [] = Inr scored"
    by (simp add: score_loop_Inr outcomes_def)
  with s(2) show "score_tasks f ul clock ts = Inr out"
    by (simp add: score_tasks_def)
qed

lemma outcomes_all_Inr:
  assumes "\<forall>(j, t) \<in> set (enumerate 0 ts). \<exists>r. score_entry f ul (clock j) t = Inr r"
  shows "\<exists>scored. outcomes f ul clock ts = map Inr scored"
proof -
  have "\<forall>(j, t) \<in> set (enumerate k ts). \<exists>r. score_entry f ul (clock j) t = Inr r \<Longrightarrow>
        \<exists>scored. map (\<lambda>(j, t). score_entry f ul (clock j) t) (enumerate k ts) = map Inr scored" for k
  proof (induction ts arbitrary: k)
    case Nil
    then show ?case by simp
  next
    case (Cons t ts)
    from Cons.prems obtain r where r: "score_entry f ul (clock k) t = Inr r" by fastforce
    from Cons.prems have "\<forall>(j, t) \<in> set (enumerate (Suc k) ts). \<exists>r. score_entry f ul (clock j) t = Inr r"
      by simp
    with Cons.IH obtain ds where
      "map (\<lambda>(j, t). score_entry f ul (clock j) t) (enumerate (Suc k) ts) = map Inr ds" by blast
    with r have "map (\<lambda>(j, t). score_entry f ul (clock j) t) (enumerate k (t # ts)) = map Inr (r # ds)"
      by simp
    then show ?case by blast
  qed
  with assms show ?thesis by (simp add: outcomes_def)
qed


subsection \<open>Evaluation of concrete inputs\<close>

lemmas label_eval =
  label_score_def lower_def isascii_def lower_char_def ascii_uppercase_def ascii_lowercase_def
  URGENT_LABELS_def

lemmas batch_eval =
  score_tasks_def outcomes_def clock_excerpt_def score_entry_def parse_created_at_def
  fromisoformat_excerpt_def now_excerpt_def or_default_def sample_task_def
  score_task_closed_form age_score_def now_minus_def days_def get_default_def
  complexity_scores_def label_eval sorted_reverse_def float_range_small

section \<open>The claims\<close>

subsection \<open>C1: the base_priority factor\<close>

text \<open>
  C1, as amended. For every integer rawPriority: when the creation time is absent or
  naive and the base_priority, age and dependencies factors convert to float (magnitude
  below \<open>2 ^ 1024 - 2 ^ 970\<close>), \<open>score_task\<close> returns without an error and the
  base_priority factor equals \<open>max(0, (5 - rawPriority) * 25)\<close>: the value is clamped
  at 0 from below only, and it equals \<open>clamp(0, 100, (5 - rawPriority) * 25)\<close> exactly
  when rawPriority is at least 1. On every other input \<open>score_task\<close> raises: TypeError
  for an aware creation time, OverflowError when a factor does not convert.
\<close>

theorem C1_base_priority:
  "(scorable now p created_at b \<longrightarrow>
      (\<exists>t. score_task ul now i ti p created_at cx ls b = Inr t
           \<and> map_of (factors t) ''base_priority'' = Some (max 0 ((5 - p) * 25))
           \<and> (map_of (factors t) ''base_priority'' = Some (clamp 0 100 ((5 - p) * 25))
                \<longleftrightarrow> 1 \<le> p)))
   \<and> (\<not> tz_naive created_at \<longrightarrow>
        score_task ul now i ti p created_at cx ls b = Inl TypeError)
   \<and> (tz_naive created_at \<and> \<not> scorable now p created_at b \<longrightarrow>
        score_task ul now i ti p created_at cx ls b = Inl OverflowError)"
  by (auto simp: score_task_returns score_task_aware score_task_overflow clamp_def)

theorem C1_witness:
  "scorable 0 1 None 0
   \<and> (\<exists>t. score_task unicode_lower_unused 0 ''T-1'' ''Fix login bug'' 1 None ''low'' None 0 = Inr t
           \<and> map_of (factors t) ''base_priority'' = Some 100)
   \<and> \<not> tz_naive (Some \<lparr>micros = 0, tzinfo = Some 0\<rparr>)
   \<and> score_task unicode_lower_unused 0 ''T-1'' ''Fix login bug'' 1
        (Some \<lparr>micros = 0, tzinfo = Some 0\<rparr>) ''low'' None 0 = Inl TypeError
   \<and> tz_naive None \<and> \<not> scorable 0 (- (2 ^ 1024)) None 0
   \<and> score_task unicode_lower_unused 0 ''T-1'' ''Fix login bug'' (- (2 ^ 1024)) None ''low'' None 0
        = Inl OverflowError"
proof -
  have s: "scorable 0 1 None 0"
    by (simp add: scorable_def tz_naive_def float_range_small)
  have a: "\<not> tz_naive (Some \<lparr>micros = 0, tzinfo = Some 0\<rparr>)"
    by (simp add: tz_naive_def)
  have n: "tz_naive None" by (simp add: tz_naive_def)
  have o: "\<not> scorable 0 (- (2 ^ 1024)) None 0"
    by (simp add: scorable_def float_range_def)
  show ?thesis
    using C1_base_priority [of 0 1 None 0 unicode_lower_unused "''T-1''" "''Fix login bug''"
        "''low''" None]
      C1_base_priority [of 0 1 "Some \<lparr>micros = 0, tzinfo = Some 0\<rparr>" 0 unicode_lower_unused
        "''T-1''" "''Fix login bug''" "''low''" None]
      C1_base_priority [of 0 "- (2 ^ 1024)" None 0 unicode_lower_unused "''T-1''"
        "''Fix login bug''" "''low''" None]
      s a n o
    by auto
qed

text \<open>
  The claim as stated fails at rawPriority 0: the factor is 125, the clamp of the
  specification gives 100.
\<close>

theorem C1_counterexample:
  "score_task unicode_lower_unused 0 ''T-1'' ''Fix login bug'' 0 None ''medium'' None 0 =
     Inr \<lparr>task_id = ''T-1'', title = ''Fix login bug'', raw_priority = 0, score = 115 / 2,
          factors = [(''base_priority'', 125), (''age'', 0), (''complexity'', 50),
                     (''dependencies'', 0), (''labels'', 0)]\<rparr>
   \<and> clamp 0 100 ((5 - 0) * 25) = 100"
  by (simp add: score_task_closed_form age_score_def label_score_def get_default_def
        complexity_scores_def clamp_def float_range_small)

subsection \<open>C2: a malformed timestamp\<close>




subsection \<open>C3: the range of the factors\<close>

text \<open>
  C3, as amended. For every input on which \<open>score_task\<close> returns (the creation time
  absent or naive, and the base_priority, age and dependencies factors of magnitude
  below \<open>2 ^ 1024 - 2 ^ 970\<close>, so that they convert to float), the factors map of the
  ScoredTask has the five keys, with the complexity and labels factors in [0, 100], the
  base_priority factor at least 0, and the age and dependencies factors at most 100.
  All five factors lie in [0, 100] exactly when rawPriority is at least 1, blockingCount
  is at least 0 and the creation time is absent or not later than \<open>now\<close>.
\<close>

theorem C3_factor_ranges:
  assumes "scorable now p created_at b"
  shows "\<exists>t. score_task ul now i ti p created_at cx ls b = Inr t
     \<and> map fst (factors t) = [''base_priority'', ''age'', ''complexity'', ''dependencies'', ''labels'']
     \<and> (\<exists>v. map_of (factors t) ''complexity'' = Some v \<and> 0 \<le> v \<and> v \<le> 100)
     \<and> (\<exists>v. map_of (factors t) ''labels'' = Some v \<and> 0 \<le> v \<and> v \<le> 100)
     \<and> (\<exists>v. map_of (factors t) ''base_priority'' = Some v \<and> 0 \<le> v)
     \<and> (\<exists>v. map_of (factors t) ''age'' = Some v \<and> v \<le> 100)
     \<and> (\<exists>v. map_of (factors t) ''dependencies'' = Some v \<and> v \<le> 100)
     \<and> ((\<forall>(k, v) \<in> set (factors t). 0 \<le> v \<and> v \<le> 100) \<longleftrightarrow>
           1 \<le> p \<and> 0 \<le> b \<and> (\<forall>d. created_at = Some d \<longrightarrow> micros d \<le> now))"
proof -
  define a where
    "a = (case created_at of None \<Rightarrow> 0 | Some d \<Rightarrow> min 100 (days (now - micros d) * 5))"
  have a_hi: "a \<le> 100" by (simp add: a_def split: option.splits)
  have a_lo: "0 \<le> a \<longleftrightarrow> (\<forall>d. created_at = Some d \<longrightarrow> micros d \<le> now)"
    by (auto simp: a_def days_def pos_imp_zdiv_nonneg_iff split: option.splits)
  have l: "label_score ul ls = 0 \<or> label_score ul ls = 100"
    by (simp add: label_score_cases)
  have c: "0 \<le> get_default complexity_scores cx 50" "get_default complexity_scores cx 50 \<le> 100"
    using complexity_range by auto
  have b_hi: "(5 - p) * 25 \<le> 100 \<longleftrightarrow> 1 \<le> p" by auto
  show ?thesis
    unfolding score_task_returns [OF assms] a_def [symmetric]
    using a_hi a_lo l c b_hi by auto
qed

theorem C3_witness:
  "scorable now_excerpt 1 (Some \<lparr>micros = 63839664000000000, tzinfo = None\<rparr>) 0
   \<and> (\<exists>t. score_task unicode_lower_unused now_excerpt ''T-3'' ''Task'' 1
              (Some \<lparr>micros = 63839664000000000, tzinfo = None\<rparr>) ''low'' None 0 = Inr t
         \<and> list_all (\<lambda>(k, v). 0 \<le> v \<and> v \<le> 100) (factors t))"
proof -
  have s: "scorable now_excerpt 1 (Some \<lparr>micros = 63839664000000000, tzinfo = None\<rparr>) 0"
    by (simp add: scorable_def tz_naive_def now_excerpt_def days_def float_range_small)
  show ?thesis
    using C3_factor_ranges [OF s, of unicode_lower_unused "''T-3''" "''Task''" "''low''" None] s
    by (auto simp: now_excerpt_def list_all_iff)
qed

text \<open>
  The claim as stated fails for rawPriority 0, blockingCount -1 and a creation time one
  microsecond after \<open>now\<close>: the factors 125, -5 and -20 lie outside [0, 100].
\<close>

theorem C3_counterexample:
  "score_task unicode_lower_unused 0 ''T-3'' ''Task'' 0 (Some \<lparr>micros = 1, tzinfo = None\<rparr>)
       ''low'' (Some [''Critical'']) (- 1) =
     Inr \<lparr>task_id = ''T-3'', title = ''Task'', raw_priority = 0, score = 68,
          factors = [(''base_priority'', 125), (''age'', - 5), (''complexity'', 80),
                     (''dependencies'', - 20), (''labels'', 100)]\<rparr>"
  by (simp add: batch_eval)

subsection \<open>C4: a negative blocking count\<close>

text \<open>
  C4, as amended. For every negative blockingCount on which \<open>score_task\<close> returns (the
  creation time absent or naive, and the base_priority, age and dependencies factors of
  magnitude below \<open>2 ^ 1024 - 2 ^ 970\<close>), the count is not clamped: the dependencies
  factor equals \<open>blockingCount * 20\<close>, which is at most -20.
\<close>

theorem C4_dependencies:
  assumes "b < 0" and "scorable now p created_at b"
  shows "\<exists>t. score_task ul now i ti p created_at cx ls b = Inr t
           \<and> map_of (factors t) ''dependencies'' = Some (b * 20) \<and> b * 20 \<le> - 20"
  using assms(1) by (auto simp: score_task_returns [OF assms(2)])

theorem C4_witness:
  "(- 2 :: int) < 0 \<and> scorable 0 2 None (- 2) \<and>
   (\<exists>t. score_task unicode_lower_unused 0 ''T-4'' ''Refactor'' 2 None ''medium'' None (- 2) = Inr t
           \<and> map_of (factors t) ''dependencies'' = Some (- 40))"
proof -
  have s: "scorable 0 2 None (- 2)"
    by (simp add: scorable_def tz_naive_def float_range_small)
  show ?thesis
    using C4_dependencies [OF _ s, of unicode_lower_unused "''T-4''" "''Refactor''" "''medium''" None] s
    by simp
qed

text \<open>The claim as stated fails at blockingCount -1: the dependencies factor is -20.\<close>

theorem C4_counterexample:
  "score_task unicode_lower_unused 0 ''T-4'' ''Refactor'' 2 None ''medium'' None (- 1) =
     Inr \<lparr>task_id = ''T-4'', title = ''Refactor'', raw_priority = 2, score = 69 / 2,
          factors = [(''base_priority'', 75), (''age'', 0), (''complexity'', 50),
                     (''dependencies'', - 20), (''labels'', 0)]\<rparr>"
  by (simp add: score_task_closed_form age_score_def label_score_def get_default_def
        complexity_scores_def float_range_small)

subsection \<open>C5: the ranking is descending and stable\<close>

text \<open>
  C5. \<open>rank_tasks\<close> returns a permutation of its input in descending order of score in
  which the tasks of any one score keep their input order; scores 50, 50, 70 for
  A, B, C give C, A, B. The result of \<open>score_tasks\<close> is ordered in the same way with
  respect to the scored records in the order of their descriptors.
\<close>

theorem C5_rank_stable:
 "sorted_wrt (\<lambda>a b. score b \<le> score a) (rank_tasks tasks)
  \<and> mset (rank_tasks tasks) = mset tasks
  \<and> (\<forall>k. filter (\<lambda>t. score t = k) (rank_tasks tasks) = filter (\<lambda>t. score t = k) tasks)
  \<and> (score A = 50 \<and> score B = 50 \<and> score C = 70 \<longrightarrow> rank_tasks [A, B, C] = [C, A, B])
  \<and> (\<forall>out. score_tasks f ul clock tasks_data = Inr out \<longrightarrow>
        (\<exists>scored. outcomes f ul clock tasks_data = map Inr scored
           \<and> sorted_wrt (\<lambda>a b. score b \<le> score a) out
           \<and> mset out = mset scored
           \<and> (\<forall>k. filter (\<lambda>t. score t = k) out = filter (\<lambda>t. score t = k) scored)))"
proof (intro conjI allI impI)
  show "sorted_wrt (\<lambda>a b. score b \<le> score a) (rank_tasks tasks)"
    unfolding rank_tasks_def by (rule sorted_reverse_descending)
  show "mset (rank_tasks tasks) = mset tasks"
    unfolding rank_tasks_def by (rule mset_sorted_reverse)
  show "filter (\<lambda>t. score t = k) (rank_tasks tasks) = filter (\<lambda>t. score t = k) tasks" for k
    unfolding rank_tasks_def by (rule sorted_reverse_stable)
  show "rank_tasks [A, B, C] = [C, A, B]" if "score A = 50 \<and> score B = 50 \<and> score C = 70"
    using that by (simp add: rank_tasks_def sorted_reverse_def)
  show "\<exists>scored. outcomes f ul clock tasks_data = map Inr scored
           \<and> sorted_wrt (\<lambda>a b. score b \<le> score a) out
           \<and> mset out = mset scored
           \<and> (\<forall>k. filter (\<lambda>t. score t = k) out = filter (\<lambda>t. score t = k) scored)"
    if "score_tasks f ul clock tasks_data = Inr out" for out
    using that sorted_reverse_descending [of score] mset_sorted_reverse [of score]
      sorted_reverse_stable [of score]
    by (auto simp: score_tasks_Inr)
qed

theorem C5_witness:
  "score ranked_A = 50 \<and> score ranked_B = 50 \<and> score ranked_C = 70
   \<and> rank_tasks [ranked_A, ranked_B, ranked_C] = [ranked_C, ranked_A, ranked_B]
   \<and> (\<exists>out scored.
        score_tasks fromisoformat_excerpt unicode_lower_unused clock_excerpt
          [sample_task\<lparr>priority_key := Some 3\<rparr>,
           sample_task\<lparr>priority_key := Some 3, id_key := Some ''TASK-2''\<rparr>, sample_task] = Inr out
        \<and> outcomes fromisoformat_excerpt unicode_lower_unused clock_excerpt
          [sample_task\<lparr>priority_key := Some 3\<rparr>,
           sample_task\<lparr>priority_key := Some 3, id_key := Some ''TASK-2''\<rparr>, sample_task]
            = map Inr scored
        \<and> sorted_wrt (\<lambda>a b. score b \<le> score a) out
        \<and> mset out = mset scored
        \<and> (\<forall>k. filter (\<lambda>t. score t = k) out = filter (\<lambda>t. score t = k) scored))"
proof -
  have ev: "\<exists>out. score_tasks fromisoformat_excerpt unicode_lower_unused clock_excerpt
          [sample_task\<lparr>priority_key := Some 3\<rparr>,
           sample_task\<lparr>priority_key := Some 3, id_key := Some ''TASK-2''\<rparr>, sample_task] = Inr out"
    by (simp add: batch_eval)
  have sc: "score ranked_A = 50 \<and> score ranked_B = 50 \<and> score ranked_C = 70"
    by (simp add: ranked_A_def ranked_B_def ranked_C_def)
  show ?thesis
    using C5_rank_stable [of "[]" ranked_A ranked_B ranked_C fromisoformat_excerpt
        unicode_lower_unused clock_excerpt
        "[sample_task\<lparr>priority_key := Some 3\<rparr>,
           sample_task\<lparr>priority_key := Some 3, id_key := Some ''TASK-2''\<rparr>, sample_task]"] ev sc
    by blast
qed

subsection \<open>C6: the concrete scenario\<close>

text \<open>
  C6. Priority 1, complexity low, labels [critical], blockingCount 3 and a naive creation
  time exactly ten days before \<open>now\<close>: the factors are 100, 50, 80, 60 and 100, and the
  score is 81. The identifier, the title and \<open>now\<close> are arbitrary, and so is the
  library's lower-casing of non-ASCII strings.
\<close>

theorem C6_scenario:
  "score_task ul now i ti 1 (Some \<lparr>micros = now - 10 * 86400000000, tzinfo = None\<rparr>) ''low''
       (Some [''critical'']) 3 =
     Inr \<lparr>task_id = i, title = ti, raw_priority = 1, score = 81,
          factors = [(''base_priority'', 100), (''age'', 50), (''complexity'', 80),
                     (''dependencies'', 60), (''labels'', 100)]\<rparr>"
proof -
  have s: "scorable now 1 (Some \<lparr>micros = now - 10 * 86400000000, tzinfo = None\<rparr>) 3"
    by (simp add: scorable_def tz_naive_def days_def float_range_small)
  have lab: "label_score ul (Some [''critical'']) = 100"
    by (simp add: label_eval)
  show ?thesis
    using score_task_returns [OF s, of ul i ti "''low''" "Some [''critical'']"]
    by (simp add: lab get_default_def complexity_scores_def days_def)
qed

theorem C6_witness:
  "score_task unicode_lower_unused now_excerpt ''T-6'' ''Fix login bug'' 1
       (Some \<lparr>micros = 63839664000000000, tzinfo = None\<rparr>) ''low'' (Some [''critical'']) 3 =
     Inr \<lparr>task_id = ''T-6'', title = ''Fix login bug'', raw_priority = 1, score = 81,
          factors = [(''base_priority'', 100), (''age'', 50), (''complexity'', 80),
                     (''dependencies'', 60), (''labels'', 100)]\<rparr>"
  using C6_scenario [of unicode_lower_unused now_excerpt "''T-6''" "''Fix login bug''"]
  by (simp add: now_excerpt_def)

subsection \<open>C7: saturation\<close>

text \<open>
  C7, as amended. On every input on which \<open>score_task\<close> returns (the creation time
  absent or naive, and the base_priority, age and dependencies factors of magnitude
  below \<open>2 ^ 1024 - 2 ^ 970\<close>): a task whose creation time lies at least twenty days
  before \<open>now\<close> has the age factor 100, and a task with a blockingCount of at least 5
  has the dependencies factor 100.
\<close>

theorem C7_saturation:
  "(scorable now p (Some d) b \<and> 20 * 86400000000 \<le> now - micros d \<longrightarrow>
      (\<exists>t. score_task ul now i ti p (Some d) cx ls b = Inr t
          \<and> map_of (factors t) ''age'' = Some 100))
   \<and> (scorable now p created_at b' \<and> 5 \<le> b' \<longrightarrow>
      (\<exists>t. score_task ul now i ti p created_at cx ls b' = Inr t
          \<and> map_of (factors t) ''dependencies'' = Some 100))"
proof (intro conjI impI)
  assume a: "scorable now p (Some d) b \<and> 20 * 86400000000 \<le> now - micros d"
  then have "20 \<le> (now - micros d) div 86400000000" by linarith
  then have "min 100 (days (now - micros d) * 5) = 100" by (simp add: days_def)
  with a show "\<exists>t. score_task ul now i ti p (Some d) cx ls b = Inr t
          \<and> map_of (factors t) ''age'' = Some 100"
    by (simp add: score_task_returns)
next
  assume a: "scorable now p created_at b' \<and> 5 \<le> b'"
  then show "\<exists>t. score_task ul now i ti p created_at cx ls b' = Inr t
          \<and> map_of (factors t) ''dependencies'' = Some 100"
    by (simp add: score_task_returns)
qed

theorem C7_witness:
  "scorable 1728000000000 3 (Some \<lparr>micros = 0, tzinfo = None\<rparr>) 0
   \<and> (20 * 86400000000 :: int) \<le> 1728000000000 - micros \<lparr>micros = 0, tzinfo = None\<rparr>
   \<and> (\<exists>t. score_task unicode_lower_unused 1728000000000 ''T-7'' ''Old task'' 3
             (Some \<lparr>micros = 0, tzinfo = None\<rparr>) ''high'' None 0 = Inr t
          \<and> map_of (factors t) ''age'' = Some 100)
   \<and> scorable 1728000000000 3 None 5 \<and> (5 :: int) \<le> 5
   \<and> (\<exists>t. score_task unicode_lower_unused 1728000000000 ''T-7'' ''Old task'' 3 None ''high''
             None 5 = Inr t
          \<and> map_of (factors t) ''dependencies'' = Some 100)"
proof -
  have s1: "scorable 1728000000000 3 (Some \<lparr>micros = 0, tzinfo = None\<rparr>) 0"
    by (simp add: scorable_def tz_naive_def days_def float_range_small)
  have s2: "scorable 1728000000000 3 None 5"
    by (simp add: scorable_def tz_naive_def float_range_small)
  show ?thesis
    using C7_saturation [of 1728000000000 3 "\<lparr>micros = 0, tzinfo = None\<rparr>" 0
        unicode_lower_unused "''T-7''" "''Old task''" "''high''" None None 5] s1 s2
    by simp
qed

text \<open>
  The claim as stated fails for an aware creation time: with a blockingCount of 5 and a
  creation time twenty days old that carries a UTC offset, the subtraction at line 60
  raises TypeError and no factor is produced.
\<close>

theorem C7_counterexample:
  "score_task unicode_lower_unused 1728000000000 ''T-7'' ''Old task'' 3
       (Some \<lparr>micros = 0, tzinfo = Some 0\<rparr>) ''high'' None 5 = Inl TypeError"
  by (simp add: score_task_closed_form age_score_def now_minus_def)

subsection \<open>C8: monotonicity in the priority\<close>

text \<open>
  C8, as amended. Two calls of \<open>score_task\<close> that differ in the priority only: when
  the call with the numerically lower priority returns (the creation time absent or
  naive, and the base_priority, age and dependencies factors of magnitude below
  \<open>2 ^ 1024 - 2 ^ 970\<close>), so does the other, and the base_priority factor of the
  lower priority is at least as large as the other's.
\<close>

theorem C8_priority_monotone:
  assumes "p1 \<le> p2" and "scorable now p1 created_at b"
  shows "\<exists>t1 t2 v1 v2. score_task ul now i ti p1 created_at cx ls b = Inr t1
              \<and> score_task ul now i ti p2 created_at cx ls b = Inr t2
              \<and> map_of (factors t1) ''base_priority'' = Some v1
              \<and> map_of (factors t2) ''base_priority'' = Some v2 \<and> v2 \<le> v1"
proof -
  have le: "max 0 ((5 - p2) * 25) \<le> max 0 ((5 - p1) * 25)"
    using assms(1) by auto
  have "0 \<le> max 0 ((5 - p2) * 25)" by simp
  with le assms(2) have "float_range (max 0 ((5 - p2) * 25))"
    unfolding scorable_def float_range_def by linarith
  with assms(2) have s2: "scorable now p2 created_at b"
    by (simp add: scorable_def)
  show ?thesis
    using le by (simp add: score_task_returns [OF assms(2)] score_task_returns [OF s2])
qed

theorem C8_witness:
  "(1 :: int) \<le> 3 \<and> scorable 0 1 None 0
   \<and> (\<exists>t1 t2 v1 v2. score_task unicode_lower_unused 0 ''T-8'' ''Task'' 1 None ''medium'' None 0
             = Inr t1
          \<and> score_task unicode_lower_unused 0 ''T-8'' ''Task'' 3 None ''medium'' None 0 = Inr t2
          \<and> map_of (factors t1) ''base_priority'' = Some v1
          \<and> map_of (factors t2) ''base_priority'' = Some v2 \<and> v2 \<le> v1)"
proof -
  have s: "scorable 0 1 None 0"
    by (simp add: scorable_def tz_naive_def float_range_small)
  show ?thesis
    using C8_priority_monotone [OF _ s, of 3 unicode_lower_unused "''T-8''" "''Task''"
        "''medium''" None] s
    by simp
qed

text \<open>
  The claim as stated fails for an aware creation time: both calls raise TypeError, and
  neither descriptor receives a base_priority factor.
\<close>

theorem C8_counterexample:
  "score_task unicode_lower_unused 0 ''T-8'' ''Task'' 1
       (Some \<lparr>micros = 0, tzinfo = Some 0\<rparr>) ''medium'' None 0 = Inl TypeError
   \<and> score_task unicode_lower_unused 0 ''T-8'' ''Task'' 3
       (Some \<lparr>micros = 0, tzinfo = Some 0\<rparr>) ''medium'' None 0 = Inl TypeError"
  by (simp add: score_task_closed_form age_score_def now_minus_def)

subsection \<open>C9: the label override\<close>

text \<open>
  C9, as amended. Two calls of \<open>score_task\<close> that differ in the labels only and on
  which the method returns (the creation time absent or naive, and the base_priority,
  age and dependencies factors of magnitude below \<open>2 ^ 1024 - 2 ^ 970\<close>), one list with
  a label whose lower-case form is an urgent label and the other without: the labels
  factors are 100 and 0, whatever the other arguments. Two label lists with the same
  lower-case forms get the same factor, and a missing or empty list gets 0.
\<close>

theorem C9_label_override:
  "(scorable now p created_at b
      \<and> (\<exists>l \<in> set (or_default L1 []). lower ul l \<in> URGENT_LABELS)
      \<and> \<not> (\<exists>l \<in> set (or_default L2 []). lower ul l \<in> URGENT_LABELS) \<longrightarrow>
     (\<exists>t1 t2. score_task ul now i ti p created_at cx L1 b = Inr t1
        \<and> score_task ul now i ti p created_at cx L2 b = Inr t2
        \<and> map_of (factors t1) ''labels'' = Some 100
        \<and> map_of (factors t2) ''labels'' = Some 0))
   \<and> (scorable now p created_at b \<and> map (lower ul) xs = map (lower ul) ys \<longrightarrow>
     (\<exists>t1 t2 v. score_task ul now i ti p created_at cx (Some xs) b = Inr t1
        \<and> score_task ul now i ti p created_at cx (Some ys) b = Inr t2
        \<and> map_of (factors t1) ''labels'' = Some v
        \<and> map_of (factors t2) ''labels'' = Some v))
   \<and> (scorable now p created_at b \<and> (L = None \<or> L = Some []) \<longrightarrow>
     (\<exists>t. score_task ul now i ti p created_at cx L b = Inr t
        \<and> map_of (factors t) ''labels'' = Some 0))"
proof (intro conjI impI)
  assume a: "scorable now p created_at b
      \<and> (\<exists>l \<in> set (or_default L1 []). lower ul l \<in> URGENT_LABELS)
      \<and> \<not> (\<exists>l \<in> set (or_default L2 []). lower ul l \<in> URGENT_LABELS)"
  then have "label_score ul L1 = 100" "label_score ul L2 = 0"
    by (simp_all add: label_score_cases)
  with a show "\<exists>t1 t2. score_task ul now i ti p created_at cx L1 b = Inr t1
        \<and> score_task ul now i ti p created_at cx L2 b = Inr t2
        \<and> map_of (factors t1) ''labels'' = Some 100
        \<and> map_of (factors t2) ''labels'' = Some 0"
    by (simp add: score_task_returns)
next
  assume a: "scorable now p created_at b \<and> map (lower ul) xs = map (lower ul) ys"
  then have "lower ul ` set xs = lower ul ` set ys"
    by (metis list.set_map)
  then have "(\<exists>l \<in> set xs. lower ul l \<in> URGENT_LABELS)
      \<longleftrightarrow> (\<exists>l \<in> set ys. lower ul l \<in> URGENT_LABELS)"
    by (metis (no_types, lifting) image_iff)
  then have "label_score ul (Some xs) = label_score ul (Some ys)"
    by (simp add: label_score_cases or_default_def)
  with a show "\<exists>t1 t2 v. score_task ul now i ti p created_at cx (Some xs) b = Inr t1
        \<and> score_task ul now i ti p created_at cx (Some ys) b = Inr t2
        \<and> map_of (factors t1) ''labels'' = Some v
        \<and> map_of (factors t2) ''labels'' = Some v"
    by (simp add: score_task_returns)
next
  assume a: "scorable now p created_at b \<and> (L = None \<or> L = Some [])"
  then have "label_score ul L = 0" by (auto simp: label_score_def)
  with a show "\<exists>t. score_task ul now i ti p created_at cx L b = Inr t
        \<and> map_of (factors t) ''labels'' = Some 0"
    by (simp add: score_task_returns)
qed

theorem C9_witness:
  "scorable 0 2 None 0
   \<and> (\<exists>t1 t2. score_task unicode_lower_unused 0 ''T-9'' ''Task'' 2 None ''medium''
                 (Some [''Urgent'', ''bug'']) 0 = Inr t1
        \<and> score_task unicode_lower_unused 0 ''T-9'' ''Task'' 2 None ''medium''
                 (Some [''feature'']) 0 = Inr t2
        \<and> map_of (factors t1) ''labels'' = Some 100
        \<and> map_of (factors t2) ''labels'' = Some 0)
   \<and> map (lower unicode_lower_unused) [''HotFix''] = map (lower unicode_lower_unused) [''hotfix'']
   \<and> (\<exists>t1 t2 v. score_task unicode_lower_unused 0 ''T-9'' ''Task'' 2 None ''medium''
                 (Some [''HotFix'']) 0 = Inr t1
        \<and> score_task unicode_lower_unused 0 ''T-9'' ''Task'' 2 None ''medium''
                 (Some [''hotfix'']) 0 = Inr t2
        \<and> map_of (factors t1) ''labels'' = Some v
        \<and> map_of (factors t2) ''labels'' = Some v)
   \<and> (\<exists>t. score_task unicode_lower_unused 0 ''T-9'' ''Task'' 2 None ''medium'' None 0 = Inr t
        \<and> map_of (factors t) ''labels'' = Some 0)"
proof -
  have h1: "\<exists>l \<in> set (or_default (Some [''Urgent'', ''bug'']) []).
              lower unicode_lower_unused l \<in> URGENT_LABELS"
    by (simp add: or_default_def label_eval)
  have h2: "\<not> (\<exists>l \<in> set (or_default (Some [''feature'']) []).
              lower unicode_lower_unused l \<in> URGENT_LABELS)"
    by (simp add: or_default_def label_eval)
  have h3: "map (lower unicode_lower_unused) [''HotFix'']
              = map (lower unicode_lower_unused) [''hotfix'']"
    by (simp add: label_eval)
  have s: "scorable 0 2 None 0"
    by (simp add: scorable_def tz_naive_def float_range_small)
  show ?thesis
    using C9_label_override [of 0 2 None 0 "Some [''Urgent'', ''bug'']" unicode_lower_unused
        "Some [''feature'']" "''T-9''" "''Task''" "''medium''" "[''HotFix'']" "[''hotfix'']" None]
      h1 h2 h3 s
    by simp
qed

text \<open>
  The claim as stated fails for an aware creation time: the two descriptors differ in
  the urgent label only, both calls raise TypeError, and no labels factor exists.
\<close>

theorem C9_counterexample:
  "score_task unicode_lower_unused 0 ''T-9'' ''Task'' 2
       (Some \<lparr>micros = 0, tzinfo = Some 0\<rparr>) ''medium'' (Some [''urgent'']) 0 = Inl TypeError
   \<and> score_task unicode_lower_unused 0 ''T-9'' ''Task'' 2
       (Some \<lparr>micros = 0, tzinfo = Some 0\<rparr>) ''medium'' (Some [''feature'']) 0 = Inl TypeError"
  by (simp add: score_task_closed_form age_score_def now_minus_def)

subsection \<open>C10: one record per descriptor\<close>

text \<open>
  C10, as amended. For every batch in which each present, non-empty created_at string
  parses to a naive datetime object and the base_priority, age and dependencies factors
  of each descriptor convert to float (magnitude below \<open>2 ^ 1024 - 2 ^ 970\<close>),
  \<open>score_tasks\<close> returns a list that is a permutation of the scored records of the
  descriptors, one per descriptor: its length is that of the batch. The empty batch
  gives the empty list.
\<close>

theorem C10_one_record_per_descriptor:
  assumes "\<forall>(k, t) \<in> set (enumerate 0 tasks_data).
             (\<forall>s. created_at_key t = Some s \<and> s \<noteq> [] \<longrightarrow>
                (\<exists>d. fromisoformat s = Some d \<and> tzinfo d = None
                   \<and> float_range (min 100 (days (clock k - micros d) * 5))))
             \<and> float_range (max 0 ((5 - or_default (priority_key t) 4) * 25))
             \<and> float_range (min 100 (or_default (blocking_count_key t) 0 * 20))"
  shows "(\<exists>scored out. outcomes fromisoformat ul clock tasks_data = map Inr scored
            \<and> score_tasks fromisoformat ul clock tasks_data = Inr out
            \<and> mset out = mset scored \<and> length out = length tasks_data)
         \<and> score_tasks fromisoformat ul clock [] = Inr []"
proof
  have "\<exists>r. score_entry fromisoformat ul (clock k) t = Inr r"
    if kt: "(k, t) \<in> set (enumerate 0 tasks_data)" for k t
  proof -
    from assms kt have
      p: "\<forall>s. created_at_key t = Some s \<and> s \<noteq> [] \<longrightarrow>
            (\<exists>d. fromisoformat s = Some d \<and> tzinfo d = None
               \<and> float_range (min 100 (days (clock k - micros d) * 5)))"
      and b: "float_range (max 0 ((5 - or_default (priority_key t) 4) * 25))"
      and d: "float_range (min 100 (or_default (blocking_count_key t) 0 * 20))"
      by auto
    have z: "float_range 0" by (simp add: float_range_small)
    from p have "\<exists>c. parse_created_at fromisoformat t = Inr c \<and> tz_naive c
        \<and> float_range (case c of None \<Rightarrow> 0 | Some d \<Rightarrow> min 100 (days (clock k - micros d) * 5))"
      using z by (auto simp: parse_created_at_def tz_naive_def split: option.splits)
    then obtain c where c: "parse_created_at fromisoformat t = Inr c"
      and "scorable (clock k) (or_default (priority_key t) 4) c
             (or_default (blocking_count_key t) 0)"
      using b d by (auto simp: scorable_def)
    then show ?thesis by (rule score_entry_returns)
  qed
  then have "\<forall>(k, t) \<in> set (enumerate 0 tasks_data).
      \<exists>r. score_entry fromisoformat ul (clock k) t = Inr r" by blast
  then obtain scored where s: "outcomes fromisoformat ul clock tasks_data = map Inr scored"
    using outcomes_all_Inr by blast
  then have out: "score_tasks fromisoformat ul clock tasks_data = Inr (sorted_reverse score scored)"
    by (auto simp: score_tasks_Inr)
  from s have "length (map Inr scored :: (error + ScoredTask) list) = length tasks_data"
    by (simp add: outcomes_def flip: s)
  then have "length scored = length tasks_data" by simp
  then have "length (sorted_reverse score scored) = length tasks_data"
    by (metis mset_sorted_reverse size_mset)
  with s out show "\<exists>scored out. outcomes fromisoformat ul clock tasks_data = map Inr scored
            \<and> score_tasks fromisoformat ul clock tasks_data = Inr out
            \<and> mset out = mset scored \<and> length out = length tasks_data"
    using mset_sorted_reverse by blast
next
  show "score_tasks fromisoformat ul clock [] = Inr []"
    by (simp add: score_tasks_def sorted_reverse_def)
qed

theorem C10_witness:
  "\<exists>scored out.
      outcomes fromisoformat_excerpt unicode_lower_unused clock_excerpt
          [sample_task, sample_task\<lparr>created_at_key := None\<rparr>] = map Inr scored
    \<and> score_tasks fromisoformat_excerpt unicode_lower_unused clock_excerpt
          [sample_task, sample_task\<lparr>created_at_key := None\<rparr>] = Inr out
    \<and> mset out = mset scored \<and> length out = 2"
proof -
  have h: "\<forall>(k, t) \<in> set (enumerate 0 [sample_task, sample_task\<lparr>created_at_key := None\<rparr>]).
             (\<forall>s. created_at_key t = Some s \<and> s \<noteq> [] \<longrightarrow>
                (\<exists>d. fromisoformat_excerpt s = Some d \<and> tzinfo d = None
                   \<and> float_range (min 100 (days (clock_excerpt k - micros d) * 5))))
             \<and> float_range (max 0 ((5 - or_default (priority_key t) 4) * 25))
             \<and> float_range (min 100 (or_default (blocking_count_key t) 0 * 20))"
    by (simp add: sample_task_def fromisoformat_excerpt_def clock_excerpt_def now_excerpt_def
        days_def or_default_def float_range_small)
  show ?thesis
    using C10_one_record_per_descriptor [OF h, of unicode_lower_unused]
    by (simp add: numeral_2_eq_2)
qed

text \<open>
  The claim as stated fails for a timestamp with a UTC offset: it parses, to an aware
  object, and the subtraction from the naive \<open>datetime.now()\<close> raises TypeError.
\<close>

theorem C10_counterexample:
  "score_tasks fromisoformat_excerpt unicode_lower_unused clock_excerpt
      [sample_task\<lparr>created_at_key := Some ''2024-01-01T00:00:00+00:00''\<rparr>] = Inl TypeError
   \<and> fromisoformat_excerpt ''2024-01-01T00:00:00+00:00''
        = Some \<lparr>micros = 63839664000000000, tzinfo = Some 0\<rparr>"
  by (simp add: batch_eval)

end
